theory Spec2Isabelle
  imports Complex_Main "HOL-Library.Word" "HOL-Library.Sublist"
begin

section \<open>JavaScript values used by the Translator feature\<close>

text \<open>
  A JavaScript string is a sequence of UTF-16 code units, and \<open>length\<close> counts code
  units. The string constants of the source are ASCII; \<open>js\<close> embeds them.
\<close>

type_synonym jsstring = "16 word list"

definition js :: "string \<Rightarrow> jsstring" where
  "js s = map of_char s"

text \<open>
  The values a property read on \<open>ERROR_MESSAGES\<close> can produce: a message string,
  \<open>undefined\<close>, a built-in method inherited from \<open>Object.prototype\<close> (named), or
  \<open>Object.prototype\<close> itself (the value of the \<open>__proto__\<close> accessor).
\<close>

datatype js_value =
    JSUndefined
  | JSNull
  | JSBoolean bool
  | JSNumber rat
  | JSString jsstring
  | JSFunction string
  | JSObject
  | JSObjectPrototype

text \<open>
  \<open>JSObject\<close> stands for any other object or array: the code only tests such a value
  for truthiness, for its \<open>typeof\<close> and for identity with a string. A JSON number is
  a finite double, hence a rational; only whether it is zero is observed.
\<close>

fun truthy :: "js_value \<Rightarrow> bool" where
  "truthy JSUndefined = False"
| "truthy JSNull = False"
| "truthy (JSBoolean b) = b"
| "truthy (JSNumber n) = (n \<noteq> 0)"
| "truthy (JSString s) = (s \<noteq> [])"
| "truthy (JSFunction f) = True"
| "truthy JSObject = True"
| "truthy JSObjectPrototype = True"

fun typeof :: "js_value \<Rightarrow> string" where
  "typeof JSUndefined = ''undefined''"
| "typeof JSNull = ''object''"
| "typeof (JSBoolean b) = ''boolean''"
| "typeof (JSNumber n) = ''number''"
| "typeof (JSString s) = ''string''"
| "typeof (JSFunction f) = ''function''"
| "typeof JSObject = ''object''"
| "typeof JSObjectPrototype = ''object''"

text \<open>
  \<open>String.prototype.trim\<close> removes the ECMAScript WhiteSpace and LineTerminator code
  points from both ends.
\<close>

definition isWhiteSpace :: "16 word \<Rightarrow> bool" where
  "isWhiteSpace c =
    (c \<in> set [0x0009, 0x000A, 0x000B, 0x000C, 0x000D, 0x0020, 0x00A0, 0x1680,
              0x2000, 0x2001, 0x2002, 0x2003, 0x2004, 0x2005, 0x2006, 0x2007,
              0x2008, 0x2009, 0x200A, 0x2028, 0x2029, 0x202F, 0x205F, 0x3000, 0xFEFF])"

definition trim :: "jsstring \<Rightarrow> jsstring" where
  "trim s = rev (dropWhile isWhiteSpace (rev (dropWhile isWhiteSpace s)))"

text \<open>\<open>String.prototype.includes\<close>: the argument occurs as a substring.\<close>

fun includes_str :: "jsstring \<Rightarrow> jsstring \<Rightarrow> bool" where
  "includes_str [] sub = (sub = [])"
| "includes_str (c # cs) sub = (prefix sub (c # cs) \<or> includes_str cs sub)"

text \<open>
  An exception object: its class, as \<open>instanceof\<close> sees it, and its \<open>message\<close>.
\<close>

datatype error_class = TypeError | SyntaxError | RangeError | OtherError

datatype js_exn = Exn (exn_class: error_class) (exn_message: jsstring)

text \<open>
  What \<open>fetch\<close> resolves with: the HTTP status and what \<open>response.json()\<close> gives,
  the parsed body or the exception it rejects with.
\<close>

datatype 'a Response = Response (status_of: nat) (json_of: "js_exn + 'a")

definition ok :: "'a Response \<Rightarrow> bool" where
  "ok r = (200 \<le> status_of r \<and> status_of r \<le> 299)"

section \<open>services/translationAPI.ts: the error normalizer\<close>

definition INVALID_INPUT :: jsstring where "INVALID_INPUT = js ''INVALID_INPUT''"
definition RATE_LIMIT :: jsstring where "RATE_LIMIT = js ''RATE_LIMIT''"
definition API_ERROR :: jsstring where "API_ERROR = js ''API_ERROR''"
definition AUTH_ERROR :: jsstring where "AUTH_ERROR = js ''AUTH_ERROR''"
definition NETWORK_ERROR :: jsstring where "NETWORK_ERROR = js ''NETWORK_ERROR''"
definition OFFLINE :: jsstring where "OFFLINE = js ''OFFLINE''"

definition ERROR_CODES :: "jsstring list" where
  "ERROR_CODES = [INVALID_INPUT, RATE_LIMIT, API_ERROR, AUTH_ERROR, NETWORK_ERROR, OFFLINE]"

text \<open>The own properties of the object literal \<open>ERROR_MESSAGES\<close>, in source order.\<close>

definition ERROR_MESSAGES :: "(jsstring \<times> jsstring) list" where
  "ERROR_MESSAGES =
    [(INVALID_INPUT, js ''Please enter valid text to translate.''),
     (RATE_LIMIT, js ''Too many requests. Please wait a moment and try again.''),
     (API_ERROR, js ''Translation service is temporarily unavailable.''),
     (AUTH_ERROR, js ''Translation service configuration error.''),
     (NETWORK_ERROR, js ''Unable to connect. Please check your internet connection.''),
     (OFFLINE, js ''You are offline. Please check your internet connection.'')]"

text \<open>
  \<open>ERROR_MESSAGES\<close> is an ordinary object literal, so its prototype is
  \<open>Object.prototype\<close>. These are the property names every such object inherits; the
  test file lists the same twelve names as \<open>reservedProps\<close>.
\<close>

definition Object_prototype :: "(jsstring \<times> js_value) list" where
  "Object_prototype =
    [(js ''constructor'', JSFunction ''Object''),
     (js ''toString'', JSFunction ''toString''),
     (js ''valueOf'', JSFunction ''valueOf''),
     (js ''hasOwnProperty'', JSFunction ''hasOwnProperty''),
     (js ''isPrototypeOf'', JSFunction ''isPrototypeOf''),
     (js ''propertyIsEnumerable'', JSFunction ''propertyIsEnumerable''),
     (js ''toLocaleString'', JSFunction ''toLocaleString''),
     (js ''__proto__'', JSObjectPrototype),
     (js ''__defineGetter__'', JSFunction ''__defineGetter__''),
     (js ''__defineSetter__'', JSFunction ''__defineSetter__''),
     (js ''__lookupGetter__'', JSFunction ''__lookupGetter__''),
     (js ''__lookupSetter__'', JSFunction ''__lookupSetter__'')]"

definition reservedProps :: "jsstring list" where
  "reservedProps = map fst Object_prototype"

text \<open>
  The property read \<open>ERROR_MESSAGES[code]\<close>: an own property first, then the
  prototype chain, then \<open>undefined\<close>.
\<close>

definition ERROR_MESSAGES_get :: "jsstring \<Rightarrow> js_value" where
  "ERROR_MESSAGES_get code =
    (case map_of ERROR_MESSAGES code of
       Some m \<Rightarrow> JSString m
     | None \<Rightarrow>
        (case map_of Object_prototype code of
           Some v \<Rightarrow> v
         | None \<Rightarrow> JSUndefined))"

text \<open>\<open>return ERROR_MESSAGES[code] || ERROR_MESSAGES[ERROR_CODES.API_ERROR]\<close>\<close>

definition getErrorMessage :: "jsstring \<Rightarrow> js_value" where
  "getErrorMessage code =
    (if truthy (ERROR_MESSAGES_get code) then ERROR_MESSAGES_get code
     else ERROR_MESSAGES_get API_ERROR)"

definition fallback_message :: js_value where
  "fallback_message = JSString (js ''Translation service is temporarily unavailable.'')"

definition is_nonempty_string :: "js_value \<Rightarrow> bool" where
  "is_nonempty_string v = (case v of JSString s \<Rightarrow> s \<noteq> [] | _ \<Rightarrow> False)"

section \<open>services/translationAPI.ts: the gateway\<close>

datatype Language = en | ja

record TranslationAPIError =
  code :: jsstring
  message :: js_value
  status :: nat

text \<open>
  The parsed body of the endpoint's response, as \<open>translate\<close> reads it: JSON
  \<open>null\<close>, or a value whose \<open>code\<close> and \<open>message\<close> properties are strings or absent
  (the types of \<open>TranslationAPIError\<close>), together with the two success fields. A JSON
  number, string or boolean has none of the properties and reads as a value with every
  field absent.
\<close>

record response_data =
  data_code :: "jsstring option"
  data_message :: "jsstring option"
  data_translatedText :: "jsstring option"
  data_detectedSourceLanguage :: "jsstring option"

datatype json_data = JSONNull | JSONValue response_data

record fetch_request =
  request_url :: jsstring
  request_text :: jsstring
  request_sourceLanguage :: Language
  request_targetLanguage :: Language

text \<open>
  The environment of the gateway: \<open>navigator\<close> is \<open>None\<close> when the global is undefined
  and otherwise holds \<open>navigator.onLine\<close>; \<open>fetch\<close> resolves with a response or rejects
  with an exception.
\<close>

record gateway_env =
  navigator :: "bool option"
  fetch :: "fetch_request \<Rightarrow> js_exn + json_data Response"

definition isOnline :: "gateway_env \<Rightarrow> bool" where
  "isOnline env = (case navigator env of None \<Rightarrow> True | Some onLine \<Rightarrow> onLine)"

text \<open>What the \<open>try\<close> block of \<open>translate\<close> can throw: its own error object, or an exception.\<close>

datatype thrown = ThrownAPIError TranslationAPIError | ThrownException js_exn

text \<open>\<open>data.code || ERROR_CODES.API_ERROR\<close>\<close>

definition code_or_API_ERROR :: "jsstring option \<Rightarrow> jsstring" where
  "code_or_API_ERROR c =
    (case c of None \<Rightarrow> API_ERROR | Some s \<Rightarrow> if s \<noteq> [] then s else API_ERROR)"

text \<open>
  The property key that \<open>getErrorMessage(data.code)\<close> looks up: an absent code is
  \<open>undefined\<close>, whose key is the string "undefined".
\<close>

definition property_key :: "jsstring option \<Rightarrow> jsstring" where
  "property_key c = (case c of None \<Rightarrow> js ''undefined'' | Some s \<Rightarrow> s)"

text \<open>\<open>data.message || getErrorMessage(data.code)\<close>\<close>

definition message_or_default :: "response_data \<Rightarrow> js_value" where
  "message_or_default d =
    (case data_message d of
       None \<Rightarrow> getErrorMessage (property_key (data_code d))
     | Some m \<Rightarrow>
        if m \<noteq> [] then JSString m else getErrorMessage (property_key (data_code d)))"

definition translate_request :: "jsstring \<Rightarrow> Language \<Rightarrow> Language \<Rightarrow> fetch_request" where
  "translate_request text sourceLanguage targetLanguage =
    \<lparr>request_url = js ''/api/translate'', request_text = text,
     request_sourceLanguage = sourceLanguage, request_targetLanguage = targetLanguage\<rparr>"

text \<open>
  The \<open>try\<close> block, lines 93 to 118. Reading \<open>data.code\<close> of \<open>null\<close> throws a
  TypeError (the message is V8's).
\<close>

definition translate_try ::
  "gateway_env \<Rightarrow> jsstring \<Rightarrow> Language \<Rightarrow> Language \<Rightarrow> thrown + json_data" where
  "translate_try env text sourceLanguage targetLanguage =
    (case fetch env (translate_request text sourceLanguage targetLanguage) of
       Inl e \<Rightarrow> Inl (ThrownException e)
     | Inr response \<Rightarrow>
        (case json_of response of
           Inl e \<Rightarrow> Inl (ThrownException e)
         | Inr data \<Rightarrow>
            if \<not> ok response then
              (case data of
                 JSONNull \<Rightarrow>
                   Inl (ThrownException
                     (Exn TypeError (js ''Cannot read properties of null (reading 'code')'')))
               | JSONValue d \<Rightarrow>
                   Inl (ThrownAPIError
                     \<lparr>code = code_or_API_ERROR (data_code d),
                      message = message_or_default d,
                      status = status_of response\<rparr>))
            else Inr data))"

text \<open>The \<open>catch\<close> block, lines 119 to 148.\<close>

definition translate_catch :: "thrown \<Rightarrow> TranslationAPIError" where
  "translate_catch t =
    (case t of
       ThrownAPIError error \<Rightarrow> error
     | ThrownException error \<Rightarrow>
        if exn_class error = TypeError then
          \<lparr>code = NETWORK_ERROR, message = getErrorMessage NETWORK_ERROR, status = 0\<rparr>
        else
          \<lparr>code = API_ERROR, message = getErrorMessage API_ERROR, status = 500\<rparr>)"

text \<open>
  \<open>translate\<close> returns its result (\<open>Inl\<close> the error it throws) and the requests it has
  issued with \<open>fetch\<close>, in order.
\<close>

definition translate ::
  "gateway_env \<Rightarrow> jsstring \<Rightarrow> Language \<Rightarrow> Language \<Rightarrow>
     (TranslationAPIError + json_data) \<times> fetch_request list" where
  "translate env text sourceLanguage targetLanguage =
    (if \<not> isOnline env then
       (Inl \<lparr>code = OFFLINE, message = getErrorMessage OFFLINE, status = 0\<rparr>, [])
     else if text = [] \<or> length (trim text) = 0 then
       (Inl \<lparr>code = INVALID_INPUT,
             message = JSString (js ''Please enter text to translate.''),
             status = 400\<rparr>, [])
     else if length text > 5000 then
       (Inl \<lparr>code = INVALID_INPUT,
             message = JSString (js ''Text exceeds maximum length of 5000 characters.''),
             status = 400\<rparr>, [])
     else
       (case translate_try env text sourceLanguage targetLanguage of
          Inl t \<Rightarrow> Inl (translate_catch t)
        | Inr data \<Rightarrow> Inr data,
        [translate_request text sourceLanguage targetLanguage]))"

section \<open>The proxy endpoint: the route handler \<open>POST /api/translate\<close>\<close>

text \<open>
  The parsed request body after \<open>const { text, sourceLanguage, targetLanguage } = body\<close>:
  JSON \<open>null\<close> (destructuring it throws), or the three properties, each any JSON value
  or \<open>undefined\<close> when absent. A JSON number, string, boolean or array body has none of
  the three properties.
\<close>

record TranslationRequestBody =
  body_text :: js_value
  body_sourceLanguage :: js_value
  body_targetLanguage :: js_value

datatype request_json = RequestNull | RequestValue TranslationRequestBody

text \<open>One element of \<open>data.translations\<close> of the provider's response.\<close>

record translation =
  translatedText :: jsstring
  detectedSourceLanguage :: "jsstring option"

text \<open>
  The parsed body of the provider's response, by how far the path
  \<open>data.data.translations[0]\<close> can be followed: JSON \<open>null\<close>, no \<open>data\<close> property,
  no \<open>translations\<close> property, or the array of translations.
\<close>

datatype GoogleTranslateResponse =
    GoogleNull
  | GoogleNoData
  | GoogleNoTranslations
  | GoogleTranslations "translation list"

record google_request =
  google_url :: jsstring
  q :: jsstring
  source :: js_value
  target :: js_value
  format :: jsstring

text \<open>
  The environment of the handler: the credential of \<open>process.env\<close> (\<open>None\<close> when the
  variable is not set) and the provider behind \<open>fetch\<close>.
\<close>

record proxy_env =
  GOOGLE_TRANSLATE_API_KEY :: "jsstring option"
  google_fetch :: "google_request \<Rightarrow> js_exn + GoogleTranslateResponse Response"

text \<open>
  A response built by \<open>NextResponse.json(body, { status })\<close>: the JSON body and the HTTP
  status. The error body has the three properties
  \<open>code\<close>, \<open>message\<close> and \<open>status\<close>; the success body has \<open>translatedText\<close> and,
  when defined, \<open>detectedSourceLanguage\<close>.
\<close>

datatype json_body =
    ErrorBody jsstring jsstring nat
  | SuccessBody jsstring "jsstring option"

datatype NextResponse = NextResponse_json json_body nat

definition error_response :: "jsstring \<Rightarrow> string \<Rightarrow> nat \<Rightarrow> NextResponse" where
  "error_response c m s = NextResponse_json (ErrorBody c (js m) s) s"

text \<open>
  The call \<open>NextResponse.json(body, { status })\<close> itself. It builds the response with
  the \<open>Response\<close> constructor, which throws a RangeError for a status outside 200 to
  599 and, the body being present, a TypeError for a null body status (204, 205 and 304
  are the ones in that range). The messages are those of Node's \<open>Response\<close>.
\<close>

definition null_body_status :: "nat \<Rightarrow> bool" where
  "null_body_status s = (s = 101 \<or> s = 103 \<or> s = 204 \<or> s = 205 \<or> s = 304)"

definition invalid_status_message :: "nat \<Rightarrow> jsstring" where
  "invalid_status_message s =
    js ''Response constructor: Invalid response status code '' @
    js (if s = 204 then ''204'' else if s = 205 then ''205'' else ''304'')"

definition NextResponse_json_init :: "json_body \<Rightarrow> nat \<Rightarrow> js_exn + NextResponse" where
  "NextResponse_json_init body s =
    (if s < 200 \<or> 599 < s then
       Inl (Exn RangeError
         (js ''init['' @ [0x22] @ js ''status'' @ [0x22] @
          js ''] must be in the range of 200 to 599, inclusive.''))
     else if null_body_status s then
       Inl (Exn TypeError (invalid_status_message s))
     else Inr (NextResponse_json body s))"

text \<open>
  The call pattern of every error exit of the \<open>try\<close> block:
  \<open>NextResponse.json({ code, message, status }, { status })\<close>.
\<close>

definition json_error :: "jsstring \<Rightarrow> string \<Rightarrow> nat \<Rightarrow> js_exn + NextResponse" where
  "json_error c m s = NextResponse_json_init (ErrorBody c (js m) s) s"

definition validLanguages :: "js_value list" where
  "validLanguages = [JSString (js ''en''), JSString (js ''ja'')]"

definition string_of :: "js_value \<Rightarrow> jsstring" where
  "string_of v = (case v of JSString s \<Rightarrow> s | _ \<Rightarrow> [])"

definition key_is_missing :: "jsstring option \<Rightarrow> bool" where
  "key_is_missing k = (case k of None \<Rightarrow> True | Some s \<Rightarrow> s = [])"

definition googleApiUrl :: "jsstring option \<Rightarrow> jsstring" where
  "googleApiUrl k =
    js ''https://translation.googleapis.com/language/translate/v2?key='' @
    (case k of None \<Rightarrow> [] | Some s \<Rightarrow> s)"

definition provider_request :: "proxy_env \<Rightarrow> TranslationRequestBody \<Rightarrow> google_request" where
  "provider_request env body =
    \<lparr>google_url = googleApiUrl (GOOGLE_TRANSLATE_API_KEY env),
     q = string_of (body_text body),
     source = body_sourceLanguage body,
     target = body_targetLanguage body,
     format = js ''text''\<rparr>"

text \<open>
  Lines 156 to 162: the provider's success body is parsed and its first translation is
  returned, with the default status 200. Each step that reads a property of \<open>null\<close>
  or \<open>undefined\<close> throws a TypeError (the messages are V8's, the engine of the Next.js
  runtimes).
\<close>

definition first_translation ::
  "js_exn + GoogleTranslateResponse \<Rightarrow> js_exn + NextResponse" where
  "first_translation parsed =
    (case parsed of
       Inl e \<Rightarrow> Inl e
     | Inr GoogleNull \<Rightarrow>
         Inl (Exn TypeError (js ''Cannot read properties of null (reading 'data')''))
     | Inr GoogleNoData \<Rightarrow>
         Inl (Exn TypeError (js ''Cannot read properties of undefined (reading 'translations')''))
     | Inr GoogleNoTranslations \<Rightarrow>
         Inl (Exn TypeError (js ''Cannot read properties of undefined (reading '0')''))
     | Inr (GoogleTranslations []) \<Rightarrow>
         Inl (Exn TypeError
           (js ''Cannot read properties of undefined (reading 'translatedText')''))
     | Inr (GoogleTranslations (t # ts)) \<Rightarrow>
         NextResponse_json_init
           (SuccessBody (translatedText t) (detectedSourceLanguage t)) 200)"

text \<open>
  Lines 118 to 162: the mapping of the provider's response. The status of the response is
  passed on to \<open>NextResponse.json\<close>, which may refuse it.
\<close>

definition map_google_response ::
  "GoogleTranslateResponse Response \<Rightarrow> js_exn + NextResponse" where
  "map_google_response googleResponse =
    (if status_of googleResponse = 429 then
       json_error RATE_LIMIT ''Too many requests. Please wait a moment and try again.'' 429
     else if status_of googleResponse = 401 \<or> status_of googleResponse = 403 then
       json_error AUTH_ERROR ''Translation service configuration error.''
         (status_of googleResponse)
     else if \<not> ok googleResponse then
       json_error API_ERROR ''Translation service is temporarily unavailable.''
         (status_of googleResponse)
     else first_translation (json_of googleResponse))"

text \<open>
  The \<open>try\<close> block, lines 34 to 162: the result (\<open>Inl\<close> the exception thrown) and the
  requests sent to the provider. The argument is what \<open>request.json()\<close> gives.
\<close>

definition POST_try ::
  "proxy_env \<Rightarrow> js_exn + request_json \<Rightarrow> (js_exn + NextResponse) \<times> google_request list" where
  "POST_try env request =
    (case request of
       Inl e \<Rightarrow> (Inl e, [])
     | Inr RequestNull \<Rightarrow>
         (Inl (Exn TypeError
            (js ''Cannot destructure property 'text' of 'body' as it is null.'')), [])
     | Inr (RequestValue body) \<Rightarrow>
         if \<not> truthy (body_text body) \<or> typeof (body_text body) \<noteq> ''string'' then
           (json_error INVALID_INPUT ''Please enter valid text to translate.'' 400, [])
         else if length (trim (string_of (body_text body))) = 0 then
           (json_error INVALID_INPUT ''Please enter text to translate.'' 400, [])
         else if length (string_of (body_text body)) > 5000 then
           (json_error INVALID_INPUT
              ''Text exceeds maximum length of 5000 characters.'' 400, [])
         else if body_sourceLanguage body \<notin> set validLanguages \<or>
                 body_targetLanguage body \<notin> set validLanguages then
           (json_error INVALID_INPUT ''Invalid language selection.'' 400, [])
         else if key_is_missing (GOOGLE_TRANSLATE_API_KEY env) then
           (json_error AUTH_ERROR ''Translation service configuration error.'' 500, [])
         else
           (case google_fetch env (provider_request env body) of
              Inl e \<Rightarrow> Inl e
            | Inr googleResponse \<Rightarrow> map_google_response googleResponse,
            [provider_request env body]))"

text \<open>
  The \<open>catch\<close> block, lines 163 to 186. Its two calls of \<open>NextResponse.json\<close> pass
  the statuses 503 and 500, which the constructor accepts, so each returns its response.
\<close>

definition POST_catch :: "js_exn \<Rightarrow> NextResponse" where
  "POST_catch error =
    (if exn_class error = TypeError \<and> includes_str (exn_message error) (js ''fetch'') then
       error_response NETWORK_ERROR
         ''Unable to connect. Please check your internet connection.'' 503
     else
       error_response API_ERROR ''Translation service is temporarily unavailable.'' 500)"

definition POST ::
  "proxy_env \<Rightarrow> js_exn + request_json \<Rightarrow> NextResponse \<times> google_request list" where
  "POST env request =
    (case POST_try env request of
       (Inl error, calls) \<Rightarrow> (POST_catch error, calls)
     | (Inr response, calls) \<Rightarrow> (response, calls))"

section \<open>services/historyService.ts: the history store\<close>

record TranslationEntry =
  entry_id :: jsstring
  entry_sourceText :: jsstring
  entry_translatedText :: jsstring
  entry_sourceLanguage :: Language
  entry_targetLanguage :: Language
  entry_romanization :: "jsstring option"
  entry_timestamp :: int

text \<open>
  The persisted store: \<open>None\<close> while nothing has been stored, otherwise the sequence of
  entries in stored order.
\<close>

type_synonym history_store = "TranslationEntry list option"

text \<open>
  Modelled from the spec: \<open>loadHistory\<close> of \<open>services/historyService.ts\<close>, which is not
  among the source files. It produces the ordered sequence of all persisted entries and
  returns an empty sequence for an empty or missing store.
\<close>

definition loadHistory :: "history_store \<Rightarrow> TranslationEntry list" where
  "loadHistory st = (case st of None \<Rightarrow> [] | Some entries \<Rightarrow> entries)"

text \<open>
  Modelled from the spec: the upsert of \<open>saveEntry\<close>. An entry with the same identifier is
  replaced where it stands; otherwise the entry is appended.
\<close>

fun upsert :: "TranslationEntry \<Rightarrow> TranslationEntry list \<Rightarrow> TranslationEntry list" where
  "upsert e [] = [e]"
| "upsert e (x # xs) = (if entry_id x = entry_id e then e # xs else x # upsert e xs)"

text \<open>
  Modelled from the spec: \<open>saveEntry\<close> of \<open>services/historyService.ts\<close>, which is not
  among the source files. It appends or upserts the entry keyed by its identifier.
\<close>

definition saveEntry :: "TranslationEntry \<Rightarrow> history_store \<Rightarrow> history_store" where
  "saveEntry e st = Some (upsert e (loadHistory st))"

section \<open>Properties of the error normalizer\<close>

lemmas code_defs =
  INVALID_INPUT_def RATE_LIMIT_def API_ERROR_def AUTH_ERROR_def NETWORK_ERROR_def
  OFFLINE_def

lemma getErrorMessage_known:
  "getErrorMessage INVALID_INPUT = JSString (js ''Please enter valid text to translate.'')"
  "getErrorMessage RATE_LIMIT =
     JSString (js ''Too many requests. Please wait a moment and try again.'')"
  "getErrorMessage API_ERROR = fallback_message"
  "getErrorMessage AUTH_ERROR = JSString (js ''Translation service configuration error.'')"
  "getErrorMessage NETWORK_ERROR =
     JSString (js ''Unable to connect. Please check your internet connection.'')"
  "getErrorMessage OFFLINE =
     JSString (js ''You are offline. Please check your internet connection.'')"
  by (simp_all add: getErrorMessage_def ERROR_MESSAGES_get_def ERROR_MESSAGES_def
      fallback_message_def code_defs js_def)

lemma map_of_None_iff: "map_of xs k = None \<longleftrightarrow> k \<notin> set (map fst xs)"
  by (simp add: map_of_eq_None_iff)

lemma getErrorMessage_unknown_unreserved:
  assumes "c \<notin> set ERROR_CODES" and "c \<notin> set reservedProps"
  shows "getErrorMessage c = fallback_message"
proof -
  have keys: "map fst ERROR_MESSAGES = ERROR_CODES"
    by (simp add: ERROR_MESSAGES_def ERROR_CODES_def)
  have own: "map_of ERROR_MESSAGES c = None"
    using assms(1) keys by (simp add: map_of_None_iff)
  have inh: "map_of Object_prototype c = None"
    using assms(2) by (simp add: map_of_None_iff reservedProps_def)
  have "ERROR_MESSAGES_get c = JSUndefined"
    by (simp add: ERROR_MESSAGES_get_def own inh)
  then show ?thesis
    using getErrorMessage_known(3) by (simp add: getErrorMessage_def)
qed

text \<open>
  Claim C1. For a code outside the taxonomy \<open>getErrorMessage\<close> should return the
  API_ERROR fallback message, also for names such as \<open>constructor\<close>, \<open>toString\<close>
  and \<open>__proto__\<close>. The source reads the code as a property of an object literal, so at
  these three names (none of them a taxonomy code) it returns the inherited value, which
  is neither the fallback message nor a string at all.
\<close>

theorem getErrorMessage_reserved_names:
  "js ''constructor'' \<notin> set ERROR_CODES \<and>
   getErrorMessage (js ''constructor'') = JSFunction ''Object'' \<and>
   getErrorMessage (js ''toString'') = JSFunction ''toString'' \<and>
   getErrorMessage (js ''__proto__'') = JSObjectPrototype \<and>
   getErrorMessage (js ''constructor'') \<noteq> fallback_message \<and>
   \<not> is_nonempty_string (getErrorMessage (js ''constructor''))"
  by (simp add: getErrorMessage_def ERROR_MESSAGES_get_def ERROR_MESSAGES_def
      Object_prototype_def ERROR_CODES_def fallback_message_def is_nonempty_string_def
      code_defs js_def)

section \<open>The history store\<close>

lemma upsert_member: "e \<in> set (upsert e xs)"
  by (induction xs) simp_all

text \<open>
  Claim C2. Round-trip fidelity of the history store: after \<open>saveEntry E\<close>,
  \<open>loadHistory\<close> contains an entry with the identifier of \<open>E\<close> whose source text,
  translated text, source language, target language, romanization and timestamp are
  those of \<open>E\<close>. It holds for every entry and every prior state of the store.
\<close>

theorem saveEntry_loadHistory_round_trip:
  "\<exists>x. x \<in> set (loadHistory (saveEntry E st)) \<and>
       entry_id x = entry_id E \<and>
       entry_sourceText x = entry_sourceText E \<and>
       entry_translatedText x = entry_translatedText E \<and>
       entry_sourceLanguage x = entry_sourceLanguage E \<and>
       entry_targetLanguage x = entry_targetLanguage E \<and>
       entry_romanization x = entry_romanization E \<and>
       entry_timestamp x = entry_timestamp E"
proof -
  have "E \<in> set (loadHistory (saveEntry E st))"
    by (simp add: saveEntry_def loadHistory_def upsert_member)
  then show ?thesis by blast
qed

section \<open>The gateway\<close>

lemma dropWhile_all: "(\<forall>x \<in> set (dropWhile P xs). P x) \<longleftrightarrow> (\<forall>x \<in> set xs. P x)"
proof
  assume a: "\<forall>x \<in> set (dropWhile P xs). P x"
  have "set xs = set (takeWhile P xs) \<union> set (dropWhile P xs)"
    by (metis set_append takeWhile_dropWhile_id)
  then show "\<forall>x \<in> set xs. P x"
    using a by (auto dest: set_takeWhileD)
next
  assume "\<forall>x \<in> set xs. P x"
  then show "\<forall>x \<in> set (dropWhile P xs). P x"
    by (auto dest: set_dropWhileD)
qed

lemma trim_Nil_iff: "trim s = [] \<longleftrightarrow> (\<forall>c \<in> set s. isWhiteSpace c)"
  by (simp add: trim_def dropWhile_eq_Nil_conv dropWhile_all)

lemma trim_empty [simp]: "trim [] = []"
  by (simp add: trim_def)

text \<open>
  Claim C3. The gateway checks its three local preconditions in order and issues no
  request when one fails: offline gives OFFLINE with status 0; otherwise a text that is
  empty after trimming gives INVALID_INPUT, 400, "Please enter text to translate.";
  otherwise a text of more than 5000 code units gives INVALID_INPUT, 400, "Text exceeds
  maximum length of 5000 characters.". When all three pass, exactly one request is
  issued.
\<close>

theorem translate_preconditions:
  "(\<not> isOnline env \<longrightarrow>
      translate env text s t =
        (Inl \<lparr>code = OFFLINE,
              message = JSString (js ''You are offline. Please check your internet connection.''),
              status = 0\<rparr>, [])) \<and>
   (isOnline env \<and> trim text = [] \<longrightarrow>
      translate env text s t =
        (Inl \<lparr>code = INVALID_INPUT,
              message = JSString (js ''Please enter text to translate.''),
              status = 400\<rparr>, [])) \<and>
   (isOnline env \<and> trim text \<noteq> [] \<and> 5000 < length text \<longrightarrow>
      translate env text s t =
        (Inl \<lparr>code = INVALID_INPUT,
              message = JSString (js ''Text exceeds maximum length of 5000 characters.''),
              status = 400\<rparr>, [])) \<and>
   (isOnline env \<and> trim text \<noteq> [] \<and> length text \<le> 5000 \<longrightarrow>
      snd (translate env text s t) = [translate_request text s t])"
proof -
  have e: "text = [] \<Longrightarrow> trim text = []" by simp
  show ?thesis
    using e by (auto simp: translate_def getErrorMessage_known)
qed


theorem translate_preconditions_witness:
  "translate \<lparr>navigator = Some False, fetch = (\<lambda>r. Inl (Exn OtherError []))\<rparr> (js ''hello'') en ja =
     (Inl \<lparr>code = OFFLINE,
           message = JSString (js ''You are offline. Please check your internet connection.''),
           status = 0\<rparr>, []) \<and>
   translate \<lparr>navigator = Some True, fetch = (\<lambda>r. Inl (Exn OtherError []))\<rparr> [0x3000, 0x20] en ja =
     (Inl \<lparr>code = INVALID_INPUT,
           message = JSString (js ''Please enter text to translate.''),
           status = 400\<rparr>, []) \<and>
   translate \<lparr>navigator = None, fetch = (\<lambda>r. Inl (Exn OtherError []))\<rparr> (replicate 5001 0x61) en ja =
     (Inl \<lparr>code = INVALID_INPUT,
           message = JSString (js ''Text exceeds maximum length of 5000 characters.''),
           status = 400\<rparr>, []) \<and>
   snd (translate \<lparr>navigator = None, fetch = (\<lambda>r. Inl (Exn OtherError []))\<rparr> (js ''hello'') en ja) =
     [translate_request (js ''hello'') en ja]"
proof -
  let ?f = "\<lambda>r::fetch_request. (Inl (Exn OtherError []) :: js_exn + json_data Response)"
  let ?off = "\<lparr>navigator = Some False, fetch = ?f\<rparr>"
  let ?on = "\<lparr>navigator = Some True, fetch = ?f\<rparr>"
  let ?ssr = "\<lparr>navigator = None, fetch = ?f\<rparr>"
  have off: "\<not> isOnline ?off"
    by (simp add: isOnline_def)
  have on1: "isOnline ?on \<and> trim [0x3000, 0x20] = []"
    by (simp add: isOnline_def trim_def isWhiteSpace_def)
  have on2: "isOnline ?ssr \<and> trim (replicate 5001 (0x61 :: 16 word)) \<noteq> [] \<and>
      5000 < length (replicate 5001 (0x61 :: 16 word))"
    by (simp add: isOnline_def trim_Nil_iff isWhiteSpace_def)
  have on3: "isOnline ?ssr \<and> trim (js ''hello'') \<noteq> [] \<and> length (js ''hello'') \<le> 5000"
    by (simp add: isOnline_def trim_def isWhiteSpace_def js_def)
  note a = translate_preconditions [of ?off "js ''hello''" en ja, THEN conjunct1, THEN mp, OF off]
  note b = translate_preconditions [of ?on "[0x3000, 0x20]" en ja,
      THEN conjunct2, THEN conjunct1, THEN mp, OF on1]
  note c = translate_preconditions [of ?ssr "replicate 5001 0x61" en ja,
      THEN conjunct2, THEN conjunct2, THEN conjunct1, THEN mp, OF on2]
  note d = translate_preconditions [of ?ssr "js ''hello''" en ja,
      THEN conjunct2, THEN conjunct2, THEN conjunct2, THEN mp, OF on3]
  show ?thesis
    by (rule conjI a b c d)+
qed

lemma translate_passes_preconditions:
  assumes "isOnline env" and "trim text \<noteq> []" and "length text \<le> 5000"
  shows "translate env text s t =
    (case translate_try env text s t of
       Inl th \<Rightarrow> Inl (translate_catch th)
     | Inr data \<Rightarrow> Inr data,
     [translate_request text s t])"
proof -
  have "text \<noteq> []" using assms(2) by auto
  then show ?thesis using assms by (simp add: translate_def)
qed

lemma translate_fetch_rejects:
  assumes "isOnline env" and "trim text \<noteq> []" and "length text \<le> 5000"
    and "fetch env (translate_request text s t) = Inl e"
  shows "fst (translate env text s t) =
    Inl (if exn_class e = TypeError
         then \<lparr>code = NETWORK_ERROR,
               message = JSString (js ''Unable to connect. Please check your internet connection.''),
               status = 0\<rparr>
         else \<lparr>code = API_ERROR,
               message = JSString (js ''Translation service is temporarily unavailable.''),
               status = 500\<rparr>)"
  using assms(4)
  by (simp add: translate_passes_preconditions [OF assms(1-3)] translate_try_def
      translate_catch_def getErrorMessage_known fallback_message_def)

text \<open>
  Claim C7. A failure of \<open>translate\<close> that is not already a structured error should be
  NETWORK_ERROR with status 0 when the request could not reach the endpoint, and
  API_ERROR with status 500 for any other unexpected failure. A rejected \<open>fetch\<close> is
  classified so (lemma \<open>translate_fetch_rejects\<close>). The source decides by
  \<open>error instanceof TypeError\<close> alone: when the endpoint answers with status 500 and the
  JSON body \<open>null\<close>, reading \<open>data.code\<close> throws a TypeError, and \<open>translate\<close> fails
  with NETWORK_ERROR and status 0 although the request was answered.
\<close>

theorem translate_null_error_body:
  "translate \<lparr>navigator = None, fetch = (\<lambda>r. Inr (Response 500 (Inr JSONNull)))\<rparr>
     (js ''hello'') en ja =
   (Inl \<lparr>code = NETWORK_ERROR,
         message = JSString (js ''Unable to connect. Please check your internet connection.''),
         status = 0\<rparr>,
    [translate_request (js ''hello'') en ja])"
proof -
  let ?env = "\<lparr>navigator = None,
    fetch = (\<lambda>r::fetch_request. (Inr (Response 500 (Inr JSONNull)) :: js_exn + json_data Response))\<rparr>"
  have pre: "isOnline ?env" "trim (js ''hello'') \<noteq> []" "length (js ''hello'') \<le> 5000"
    by (simp_all add: isOnline_def trim_def isWhiteSpace_def js_def)
  show ?thesis
    by (simp add: translate_passes_preconditions [OF pre] translate_try_def
        translate_catch_def ok_def getErrorMessage_known)
qed

text \<open>
  Claim C8, as stated, at a non-success response whose body is not JSON (status 502 with
  an HTML page): \<open>response.json()\<close> rejects before the status is looked at, and
  \<open>translate\<close> fails with status 500, not with the HTTP status 502 of the response.
\<close>

theorem translate_unparseable_error_body:
  "\<not> ok (Response 502 (Inl (Exn SyntaxError (js ''Unexpected token < in JSON at position 0'')))
         :: json_data Response) \<and>
   fst (translate
     \<lparr>navigator = None,
      fetch = (\<lambda>r. Inr (Response 502
        (Inl (Exn SyntaxError (js ''Unexpected token < in JSON at position 0'')))))\<rparr>
     (js ''hello'') en ja) =
   Inl \<lparr>code = API_ERROR,
        message = JSString (js ''Translation service is temporarily unavailable.''),
        status = 500\<rparr> \<and>
   (500 :: nat) \<noteq> 502"
proof -
  let ?env = "\<lparr>navigator = None,
    fetch = (\<lambda>r::fetch_request. (Inr (Response 502
        (Inl (Exn SyntaxError (js ''Unexpected token < in JSON at position 0''))))
      :: js_exn + json_data Response))\<rparr>"
  have pre: "isOnline ?env" "trim (js ''hello'') \<noteq> []" "length (js ''hello'') \<le> 5000"
    by (simp_all add: isOnline_def trim_def isWhiteSpace_def js_def)
  show ?thesis
    by (simp add: translate_passes_preconditions [OF pre] translate_try_def
        translate_catch_def ok_def getErrorMessage_known fallback_message_def)
qed

text \<open>
  Claim C8, amended. For every non-success response whose body parses as JSON and is not
  \<open>null\<close>, its \<open>code\<close> and \<open>message\<close> each a string or absent as
  \<open>TranslationAPIError\<close> declares them, \<open>translate\<close> fails with an error whose code is
  the body's code when present and non-empty and API_ERROR otherwise, whose message is the
  body's message when present and non-empty and otherwise \<open>getErrorMessage\<close> of the
  body's code, and whose status is the HTTP status of the response; the code is the one
  the response supplied or API_ERROR. For every non-success response whose body is not
  valid JSON, so that \<open>response.json()\<close> rejects with a SyntaxError, \<open>translate\<close>
  fails with API_ERROR, the API_ERROR message and status 500, whatever the HTTP status.
\<close>

theorem translate_error_response:
  assumes "isOnline env" and "trim text \<noteq> []" and "length text \<le> 5000"
    and "fetch env (translate_request text s t) = Inr r"
    and "\<not> ok r"
  shows
    "(\<forall>d. json_of r = Inr (JSONValue d) \<longrightarrow>
       (\<exists>e. fst (translate env text s t) = Inl e \<and>
          code e = (case data_code d of
                      None \<Rightarrow> API_ERROR
                    | Some c \<Rightarrow> if c = [] then API_ERROR else c) \<and>
          message e = (case data_message d of
                      None \<Rightarrow>
                        getErrorMessage
                          (case data_code d of None \<Rightarrow> js ''undefined'' | Some c \<Rightarrow> c)
                    | Some m \<Rightarrow>
                        if m = []
                        then getErrorMessage
                          (case data_code d of None \<Rightarrow> js ''undefined'' | Some c \<Rightarrow> c)
                        else JSString m) \<and>
          status e = status_of r \<and>
          (code e = API_ERROR \<or> data_code d = Some (code e)))) \<and>
     (\<forall>m. json_of r = Inl (Exn SyntaxError m) \<longrightarrow>
        fst (translate env text s t) =
          Inl \<lparr>code = API_ERROR,
               message = JSString (js ''Translation service is temporarily unavailable.''),
               status = 500\<rparr>)"
proof -
  note pre = translate_passes_preconditions [OF assms(1-3)]
  have a: "\<exists>e. fst (translate env text s t) = Inl e \<and>
          code e = (case data_code d of
                      None \<Rightarrow> API_ERROR
                    | Some c \<Rightarrow> if c = [] then API_ERROR else c) \<and>
          message e = (case data_message d of
                      None \<Rightarrow>
                        getErrorMessage
                          (case data_code d of None \<Rightarrow> js ''undefined'' | Some c \<Rightarrow> c)
                    | Some m \<Rightarrow>
                        if m = []
                        then getErrorMessage
                          (case data_code d of None \<Rightarrow> js ''undefined'' | Some c \<Rightarrow> c)
                        else JSString m) \<and>
          status e = status_of r \<and>
          (code e = API_ERROR \<or> data_code d = Some (code e))"
    if "json_of r = Inr (JSONValue d)" for d
    using assms(4,5) that
    by (simp add: pre translate_try_def translate_catch_def code_or_API_ERROR_def
        message_or_default_def property_key_def split: option.split)
  have b: "fst (translate env text s t) =
          Inl \<lparr>code = API_ERROR,
               message = JSString (js ''Translation service is temporarily unavailable.''),
               status = 500\<rparr>"
    if "json_of r = Inl (Exn SyntaxError m)" for m
    using assms(4) that
    by (simp add: pre translate_try_def translate_catch_def getErrorMessage_known
        fallback_message_def)
  show ?thesis
    using a b by blast
qed

theorem translate_error_response_witness:
  "(\<exists>e. fst (translate
      \<lparr>navigator = Some True,
       fetch = (\<lambda>r. Inr (Response 429 (Inr (JSONValue
         \<lparr>data_code = Some RATE_LIMIT, data_message = None,
          data_translatedText = None, data_detectedSourceLanguage = None\<rparr>))))\<rparr>
      (js ''hello'') en ja) = Inl e \<and>
    code e = RATE_LIMIT \<and>
    message e = JSString (js ''Too many requests. Please wait a moment and try again.'') \<and>
    status e = 429) \<and>
   fst (translate
      \<lparr>navigator = Some True,
       fetch = (\<lambda>r. Inr (Response 502
         (Inl (Exn SyntaxError (js ''Unexpected token < in JSON at position 0'')))))\<rparr>
      (js ''hello'') en ja) =
     Inl \<lparr>code = API_ERROR,
          message = JSString (js ''Translation service is temporarily unavailable.''),
          status = 500\<rparr>"
proof -
  let ?d = "\<lparr>data_code = Some RATE_LIMIT, data_message = None,
          data_translatedText = None, data_detectedSourceLanguage = None\<rparr>"
  let ?r = "Response 429 (Inr (JSONValue ?d)) :: json_data Response"
  let ?q = "Response 502 (Inl (Exn SyntaxError (js ''Unexpected token < in JSON at position 0'')))
      :: json_data Response"
  let ?env = "\<lambda>x. \<lparr>navigator = Some True,
    fetch = (\<lambda>r::fetch_request. (Inr x :: js_exn + json_data Response))\<rparr>"
  have pre: "isOnline (?env x)" "trim (js ''hello'') \<noteq> []" "length (js ''hello'') \<le> 5000" for x
    by (simp_all add: isOnline_def trim_def isWhiteSpace_def js_def)
  have f: "fetch (?env x) (translate_request (js ''hello'') en ja) = Inr x" for x by simp
  have nok: "\<not> ok ?r" "\<not> ok ?q" by (simp_all add: ok_def)
  have j: "json_of ?r = Inr (JSONValue ?d)"
      "json_of ?q = Inl (Exn SyntaxError (js ''Unexpected token < in JSON at position 0''))"
    by simp_all
  have ne: "RATE_LIMIT \<noteq> []" by (simp add: RATE_LIMIT_def js_def)
  from translate_error_response [OF pre f nok(1), THEN conjunct1, THEN spec, THEN mp, OF j(1)] ne
  have "\<exists>e. fst (translate (?env ?r) (js ''hello'') en ja) = Inl e \<and>
      code e = RATE_LIMIT \<and>
      message e = JSString (js ''Too many requests. Please wait a moment and try again.'') \<and>
      status e = 429 \<and> (code e = API_ERROR \<or> RATE_LIMIT = code e)"
    by (simp add: getErrorMessage_known)
  then have a: "\<exists>e. fst (translate (?env ?r) (js ''hello'') en ja) = Inl e \<and>
      code e = RATE_LIMIT \<and>
      message e = JSString (js ''Too many requests. Please wait a moment and try again.'') \<and>
      status e = 429"
    by blast
  note b = translate_error_response [OF pre f nok(2), THEN conjunct2, THEN spec, THEN mp, OF j(2)]
  show ?thesis
    by (rule conjI a b)+
qed

section \<open>The proxy endpoint\<close>

lemma js_nonempty: "s \<noteq> [] \<Longrightarrow> js s \<noteq> []"
  by (simp add: js_def)

lemma codes_in_taxonomy:
  "INVALID_INPUT \<in> set ERROR_CODES" "RATE_LIMIT \<in> set ERROR_CODES"
  "API_ERROR \<in> set ERROR_CODES" "AUTH_ERROR \<in> set ERROR_CODES"
  "NETWORK_ERROR \<in> set ERROR_CODES" "OFFLINE \<in> set ERROR_CODES"
  by (simp_all add: ERROR_CODES_def)

lemma error_response_eq:
  "error_response c m s = NextResponse_json (ErrorBody c' m' st) hs \<longleftrightarrow>
     c' = c \<and> m' = js m \<and> st = s \<and> hs = s"
  by (auto simp: error_response_def)

lemma json_error_accepted:
  "200 \<le> s \<Longrightarrow> s \<le> 599 \<Longrightarrow> \<not> null_body_status s \<Longrightarrow>
     json_error c m s = Inr (error_response c m s)"
  by (simp add: json_error_def NextResponse_json_init_def error_response_def)

lemma json_error_literal:
  "json_error c m 400 = Inr (error_response c m 400)"
  "json_error c m 401 = Inr (error_response c m 401)"
  "json_error c m 403 = Inr (error_response c m 403)"
  "json_error c m 429 = Inr (error_response c m 429)"
  "json_error c m 500 = Inr (error_response c m 500)"
  by (simp_all add: json_error_accepted null_body_status_def)

lemma json_error_Inr: "json_error c m s = Inr r \<Longrightarrow> r = error_response c m s"
  by (simp add: json_error_def NextResponse_json_init_def error_response_def
      split: if_splits)

lemma json_error_Inl:
  "json_error c m s = Inl e \<Longrightarrow> \<not> includes_str (exn_message e) (js ''fetch'')"
  by (auto simp: json_error_def NextResponse_json_init_def invalid_status_message_def js_def
      split: if_splits)

lemma NextResponse_json_init_200:
  "NextResponse_json_init b 200 = Inr (NextResponse_json b 200)"
  by (simp add: NextResponse_json_init_def null_body_status_def)

lemma POST_try_valid:
  assumes "body_text body = JSString s" and "trim s \<noteq> []" and "length s \<le> 5000"
    and "body_sourceLanguage body \<in> set validLanguages"
    and "body_targetLanguage body \<in> set validLanguages"
    and "GOOGLE_TRANSLATE_API_KEY env = Some k" and "k \<noteq> []"
  shows "POST_try env (Inr (RequestValue body)) =
    (case google_fetch env (provider_request env body) of
       Inl e \<Rightarrow> Inl e
     | Inr googleResponse \<Rightarrow> map_google_response googleResponse,
     [provider_request env body])"
proof -
  have "s \<noteq> []" using assms(2) by (auto simp: trim_def)
  then show ?thesis
    using assms by (simp add: POST_try_def string_of_def key_is_missing_def)
qed

lemma POST_calls: "snd (POST env request) = snd (POST_try env request)"
  by (cases "POST_try env request") (simp add: POST_def split: sum.split)

lemma POST_Inl: "fst (POST_try env request) = Inl e \<Longrightarrow> fst (POST env request) = POST_catch e"
  by (cases "POST_try env request") (simp add: POST_def)

lemma POST_Inr: "fst (POST_try env request) = Inr r \<Longrightarrow> fst (POST env request) = r"
  by (cases "POST_try env request") (simp add: POST_def)

lemma hello_valid:
  "trim (js ''hello'') \<noteq> []" "length (js ''hello'') \<le> 5000"
  "JSString (js ''en'') \<in> set validLanguages" "JSString (js ''ja'') \<in> set validLanguages"
  "js ''secret'' \<noteq> []"
  by (simp_all add: trim_def isWhiteSpace_def js_def validLanguages_def)

lemma POST_provider_response:
  assumes "body_text body = JSString s" and "trim s \<noteq> []" and "length s \<le> 5000"
    and "body_sourceLanguage body \<in> set validLanguages"
    and "body_targetLanguage body \<in> set validLanguages"
    and "GOOGLE_TRANSLATE_API_KEY env = Some k" and "k \<noteq> []"
    and "google_fetch env (provider_request env body) = Inr g"
  shows
    "(status_of g = 429 \<longrightarrow>
        fst (POST env (Inr (RequestValue body))) =
          error_response RATE_LIMIT
            ''Too many requests. Please wait a moment and try again.'' 429) \<and>
     (status_of g = 401 \<or> status_of g = 403 \<longrightarrow>
        fst (POST env (Inr (RequestValue body))) =
          error_response AUTH_ERROR ''Translation service configuration error.''
            (status_of g)) \<and>
     (\<not> ok g \<and> status_of g \<noteq> 429 \<and> status_of g \<noteq> 401 \<and> status_of g \<noteq> 403 \<and>
      200 \<le> status_of g \<and> status_of g \<le> 599 \<and> status_of g \<noteq> 304 \<longrightarrow>
        fst (POST env (Inr (RequestValue body))) =
          error_response API_ERROR ''Translation service is temporarily unavailable.''
            (status_of g)) \<and>
     (\<not> ok g \<and> (status_of g < 200 \<or> 599 < status_of g \<or> status_of g = 304) \<longrightarrow>
        fst (POST env (Inr (RequestValue body))) =
          error_response API_ERROR ''Translation service is temporarily unavailable.'' 500) \<and>
     (\<forall>t ts. ok g \<and> json_of g = Inr (GoogleTranslations (t # ts)) \<longrightarrow>
        fst (POST env (Inr (RequestValue body))) =
          NextResponse_json
            (SuccessBody (translatedText t) (detectedSourceLanguage t)) 200)"
proof -
  have tr: "fst (POST_try env (Inr (RequestValue body))) = map_google_response g"
    using assms(8) by (simp add: POST_try_valid [OF assms(1-7)])
  have post: "fst (POST env (Inr (RequestValue body))) =
      (case map_google_response g of Inl e \<Rightarrow> POST_catch e | Inr r \<Rightarrow> r)"
    using tr by (cases "POST_try env (Inr (RequestValue body))") (simp add: POST_def split: sum.split)
  have a: "status_of g = 429 \<Longrightarrow> map_google_response g =
      Inr (error_response RATE_LIMIT
        ''Too many requests. Please wait a moment and try again.'' 429)"
    by (simp add: map_google_response_def json_error_literal)
  have b: "status_of g = 401 \<or> status_of g = 403 \<Longrightarrow> map_google_response g =
      Inr (error_response AUTH_ERROR ''Translation service configuration error.''
        (status_of g))"
    by (auto simp: map_google_response_def json_error_literal)
  have c: "\<not> ok g \<and> status_of g \<noteq> 429 \<and> status_of g \<noteq> 401 \<and> status_of g \<noteq> 403 \<and>
      200 \<le> status_of g \<and> status_of g \<le> 599 \<and> status_of g \<noteq> 304 \<Longrightarrow>
      map_google_response g =
      Inr (error_response API_ERROR ''Translation service is temporarily unavailable.''
        (status_of g))"
    by (auto simp: map_google_response_def ok_def null_body_status_def
        intro!: json_error_accepted)
  have c': "\<exists>e. map_google_response g = Inl e \<and>
        \<not> includes_str (exn_message e) (js ''fetch'')"
    if h: "\<not> ok g \<and> (status_of g < 200 \<or> 599 < status_of g \<or> status_of g = 304)"
  proof -
    have m: "map_google_response g =
        json_error API_ERROR ''Translation service is temporarily unavailable.'' (status_of g)"
      using h by (auto simp: map_google_response_def)
    have "\<exists>e. json_error API_ERROR ''Translation service is temporarily unavailable.''
        (status_of g) = Inl e"
      using h by (auto simp: json_error_def NextResponse_json_init_def null_body_status_def)
    then show ?thesis
      using m json_error_Inl by auto
  qed
  have d: "ok g \<and> json_of g = Inr (GoogleTranslations (t # ts)) \<Longrightarrow>
      map_google_response g =
      Inr (NextResponse_json
        (SuccessBody (translatedText t) (detectedSourceLanguage t)) 200)" for t ts
    by (auto simp: map_google_response_def first_translation_def ok_def
        NextResponse_json_init_200)
  have e: "\<not> ok g \<and> (status_of g < 200 \<or> 599 < status_of g \<or> status_of g = 304) \<Longrightarrow>
      fst (POST env (Inr (RequestValue body))) =
        error_response API_ERROR ''Translation service is temporarily unavailable.'' 500"
    using c' by (auto simp: post POST_catch_def)
  show ?thesis
    using a b c d e by (simp add: post)
qed

text \<open>
  Claim C5. After successful validation, every non-success provider status other than
  429, 401 and 403 should be answered with API_ERROR and the same status. The handler
  passes the provider's status to \<open>NextResponse.json\<close>; at status 304 that call throws
  inside the \<open>try\<close> block, and the handler answers with status 500 instead of 304. The
  other parts of the claim, and the same status for every status the constructor
  accepts, hold (lemma \<open>POST_provider_response\<close>).
\<close>

theorem POST_provider_status_304:
  "\<not> ok (Response 304 (Inl (Exn SyntaxError (js ''Unexpected end of JSON input'')))
         :: GoogleTranslateResponse Response) \<and>
   fst (POST \<lparr>GOOGLE_TRANSLATE_API_KEY = Some (js ''secret''),
              google_fetch = (\<lambda>r. Inr (Response 304
                (Inl (Exn SyntaxError (js ''Unexpected end of JSON input'')))))\<rparr>
        (Inr (RequestValue \<lparr>body_text = JSString (js ''hello''),
           body_sourceLanguage = JSString (js ''en''),
           body_targetLanguage = JSString (js ''ja'')\<rparr>))) =
     error_response API_ERROR ''Translation service is temporarily unavailable.'' 500 \<and>
   error_response API_ERROR ''Translation service is temporarily unavailable.'' 500 \<noteq>
     error_response API_ERROR ''Translation service is temporarily unavailable.'' 304"
proof -
  let ?body = "\<lparr>body_text = JSString (js ''hello''),
           body_sourceLanguage = JSString (js ''en''),
           body_targetLanguage = JSString (js ''ja'')\<rparr>"
  let ?g = "Response 304 (Inl (Exn SyntaxError (js ''Unexpected end of JSON input'')))
      :: GoogleTranslateResponse Response"
  let ?env = "\<lparr>GOOGLE_TRANSLATE_API_KEY = Some (js ''secret''),
      google_fetch = (\<lambda>r::google_request. (Inr ?g :: js_exn + GoogleTranslateResponse Response))\<rparr>"
  have v: "body_text ?body = JSString (js ''hello'')"
      "body_sourceLanguage ?body \<in> set validLanguages"
      "body_targetLanguage ?body \<in> set validLanguages"
      "GOOGLE_TRANSLATE_API_KEY ?env = Some (js ''secret'')"
    by (simp_all add: hello_valid)
  have m: "map_google_response ?g = Inl (Exn TypeError (invalid_status_message 304))"
    by (simp add: map_google_response_def ok_def json_error_def NextResponse_json_init_def
        null_body_status_def)
  have "fst (POST_try ?env (Inr (RequestValue ?body))) = map_google_response ?g"
    by (simp add: POST_try_valid [OF v(1) hello_valid(1,2) v(2,3,4) hello_valid(5)])
  then have "fst (POST ?env (Inr (RequestValue ?body))) =
      POST_catch (Exn TypeError (invalid_status_message 304))"
    using m by (simp add: POST_Inl)
  also have "\<dots> = error_response API_ERROR
      ''Translation service is temporarily unavailable.'' 500"
    by (simp add: POST_catch_def invalid_status_message_def js_def)
  finally show ?thesis
    by (simp add: ok_def error_response_def)
qed

text \<open>
  Claim C6, as stated, at the request body whose \<open>text\<close> is the empty string: the text
  is present and is a string, so the first check of the claim that applies is the second
  (empty after trim, "Please enter text to translate."). The handler's first check is
  \<open>!text || typeof text !== 'string'\<close>, which the empty string fails, and it answers
  "Please enter valid text to translate.".
\<close>

theorem POST_empty_text_message:
  "typeof (JSString []) = ''string'' \<and> trim [] = [] \<and>
   POST \<lparr>GOOGLE_TRANSLATE_API_KEY = Some (js ''secret''),
         google_fetch = (\<lambda>r. Inl (Exn TypeError (js ''fetch failed'')))\<rparr>
     (Inr (RequestValue \<lparr>body_text = JSString [],
        body_sourceLanguage = JSString (js ''en''),
        body_targetLanguage = JSString (js ''ja'')\<rparr>)) =
     (error_response INVALID_INPUT ''Please enter valid text to translate.'' 400, []) \<and>
   error_response INVALID_INPUT ''Please enter valid text to translate.'' 400 \<noteq>
     error_response INVALID_INPUT ''Please enter text to translate.'' 400"
  by (simp add: POST_def POST_try_def json_error_literal error_response_def js_def)

text \<open>
  Claim C6, amended. The handler applies five checks in order, failing with the first that
  applies and sending nothing to the provider: (1) text missing, not a string, or the
  empty string; (2) text not empty but empty after trim; (3) text longer than 5000 code
  units; (4) source or target language not \<open>en\<close> or \<open>ja\<close>; (5) credential missing
  or empty, answered with AUTH_ERROR, 500 and a fixed message. When none applies, one
  request is sent to the provider.
\<close>

theorem POST_validation_order:
  "((\<forall>s. body_text body = JSString s \<longrightarrow> s = []) \<longrightarrow>
      POST env (Inr (RequestValue body)) =
        (error_response INVALID_INPUT ''Please enter valid text to translate.'' 400, [])) \<and>
   (\<forall>s. body_text body = JSString s \<and> s \<noteq> [] \<and> trim s = [] \<longrightarrow>
      POST env (Inr (RequestValue body)) =
        (error_response INVALID_INPUT ''Please enter text to translate.'' 400, [])) \<and>
   (\<forall>s. body_text body = JSString s \<and> trim s \<noteq> [] \<and> 5000 < length s \<longrightarrow>
      POST env (Inr (RequestValue body)) =
        (error_response INVALID_INPUT
           ''Text exceeds maximum length of 5000 characters.'' 400, [])) \<and>
   (\<forall>s. body_text body = JSString s \<and> trim s \<noteq> [] \<and> length s \<le> 5000 \<and>
        (body_sourceLanguage body \<notin> {JSString (js ''en''), JSString (js ''ja'')} \<or>
         body_targetLanguage body \<notin> {JSString (js ''en''), JSString (js ''ja'')}) \<longrightarrow>
      POST env (Inr (RequestValue body)) =
        (error_response INVALID_INPUT ''Invalid language selection.'' 400, [])) \<and>
   (\<forall>s. body_text body = JSString s \<and> trim s \<noteq> [] \<and> length s \<le> 5000 \<and>
        body_sourceLanguage body \<in> {JSString (js ''en''), JSString (js ''ja'')} \<and>
        body_targetLanguage body \<in> {JSString (js ''en''), JSString (js ''ja'')} \<and>
        (GOOGLE_TRANSLATE_API_KEY env = None \<or> GOOGLE_TRANSLATE_API_KEY env = Some []) \<longrightarrow>
      POST env (Inr (RequestValue body)) =
        (error_response AUTH_ERROR ''Translation service configuration error.'' 500, [])) \<and>
   (\<forall>s k. body_text body = JSString s \<and> trim s \<noteq> [] \<and> length s \<le> 5000 \<and>
        body_sourceLanguage body \<in> {JSString (js ''en''), JSString (js ''ja'')} \<and>
        body_targetLanguage body \<in> {JSString (js ''en''), JSString (js ''ja'')} \<and>
        GOOGLE_TRANSLATE_API_KEY env = Some k \<and> k \<noteq> [] \<longrightarrow>
      snd (POST env (Inr (RequestValue body))) = [provider_request env body])"
proof -
  have langs: "set validLanguages = {JSString (js ''en''), JSString (js ''ja'')}"
    by (simp add: validLanguages_def)
  have ne: "trim s \<noteq> [] \<Longrightarrow> s \<noteq> []" for s
    by (auto simp: trim_def)
  have c1: "(\<forall>s. body_text body = JSString s \<longrightarrow> s = []) \<Longrightarrow>
      \<not> truthy (body_text body) \<or> typeof (body_text body) \<noteq> ''string''"
    by (cases "body_text body") simp_all
  have p1: "(\<forall>s. body_text body = JSString s \<longrightarrow> s = []) \<Longrightarrow>
      POST env (Inr (RequestValue body)) =
        (error_response INVALID_INPUT ''Please enter valid text to translate.'' 400, [])"
    using c1 by (simp add: POST_def POST_try_def json_error_literal)
  have p2: "body_text body = JSString s \<and> s \<noteq> [] \<and> trim s = [] \<Longrightarrow>
      POST env (Inr (RequestValue body)) =
        (error_response INVALID_INPUT ''Please enter text to translate.'' 400, [])" for s
    by (simp add: POST_def POST_try_def string_of_def json_error_literal)
  have p3: "body_text body = JSString s \<and> trim s \<noteq> [] \<and> 5000 < length s \<Longrightarrow>
      POST env (Inr (RequestValue body)) =
        (error_response INVALID_INPUT
           ''Text exceeds maximum length of 5000 characters.'' 400, [])" for s
    using ne [of s] by (simp add: POST_def POST_try_def string_of_def json_error_literal)
  have p4: "body_text body = JSString s \<and> trim s \<noteq> [] \<and> length s \<le> 5000 \<and>
        (body_sourceLanguage body \<notin> {JSString (js ''en''), JSString (js ''ja'')} \<or>
         body_targetLanguage body \<notin> {JSString (js ''en''), JSString (js ''ja'')}) \<Longrightarrow>
      POST env (Inr (RequestValue body)) =
        (error_response INVALID_INPUT ''Invalid language selection.'' 400, [])" for s
    using ne [of s] by (auto simp: POST_def POST_try_def string_of_def langs json_error_literal)
  have p5: "body_text body = JSString s \<and> trim s \<noteq> [] \<and> length s \<le> 5000 \<and>
        body_sourceLanguage body \<in> {JSString (js ''en''), JSString (js ''ja'')} \<and>
        body_targetLanguage body \<in> {JSString (js ''en''), JSString (js ''ja'')} \<and>
        (GOOGLE_TRANSLATE_API_KEY env = None \<or> GOOGLE_TRANSLATE_API_KEY env = Some []) \<Longrightarrow>
      POST env (Inr (RequestValue body)) =
        (error_response AUTH_ERROR ''Translation service configuration error.'' 500, [])" for s
    using ne [of s] by (auto simp: POST_def POST_try_def string_of_def langs key_is_missing_def json_error_literal)
  have p6: "body_text body = JSString s \<and> trim s \<noteq> [] \<and> length s \<le> 5000 \<and>
        body_sourceLanguage body \<in> {JSString (js ''en''), JSString (js ''ja'')} \<and>
        body_targetLanguage body \<in> {JSString (js ''en''), JSString (js ''ja'')} \<and>
        GOOGLE_TRANSLATE_API_KEY env = Some k \<and> k \<noteq> [] \<Longrightarrow>
      snd (POST env (Inr (RequestValue body))) = [provider_request env body]" for s k
    using POST_try_valid [of body s env k] by (simp add: POST_calls langs)
  show ?thesis
    using p1 p2 p3 p4 p5 p6 by blast
qed


theorem POST_validation_order_witness:
  "POST \<lparr>GOOGLE_TRANSLATE_API_KEY = None, google_fetch = (\<lambda>r. Inl (Exn OtherError []))\<rparr>
     (Inr (RequestValue \<lparr>body_text = JSUndefined,
        body_sourceLanguage = JSString (js ''en''),
        body_targetLanguage = JSString (js ''ja'')\<rparr>)) =
     (error_response INVALID_INPUT ''Please enter valid text to translate.'' 400, []) \<and>
   POST \<lparr>GOOGLE_TRANSLATE_API_KEY = None, google_fetch = (\<lambda>r. Inl (Exn OtherError []))\<rparr>
     (Inr (RequestValue \<lparr>body_text = JSString [0x3000, 0x20],
        body_sourceLanguage = JSString (js ''en''),
        body_targetLanguage = JSString (js ''ja'')\<rparr>)) =
     (error_response INVALID_INPUT ''Please enter text to translate.'' 400, []) \<and>
   POST \<lparr>GOOGLE_TRANSLATE_API_KEY = None, google_fetch = (\<lambda>r. Inl (Exn OtherError []))\<rparr>
     (Inr (RequestValue \<lparr>body_text = JSString (replicate 5001 0x61),
        body_sourceLanguage = JSString (js ''en''),
        body_targetLanguage = JSString (js ''ja'')\<rparr>)) =
     (error_response INVALID_INPUT
        ''Text exceeds maximum length of 5000 characters.'' 400, []) \<and>
   POST \<lparr>GOOGLE_TRANSLATE_API_KEY = None, google_fetch = (\<lambda>r. Inl (Exn OtherError []))\<rparr>
     (Inr (RequestValue \<lparr>body_text = JSString (js ''hello''),
        body_sourceLanguage = JSString (js ''fr''),
        body_targetLanguage = JSString (js ''ja'')\<rparr>)) =
     (error_response INVALID_INPUT ''Invalid language selection.'' 400, []) \<and>
   POST \<lparr>GOOGLE_TRANSLATE_API_KEY = None, google_fetch = (\<lambda>r. Inl (Exn OtherError []))\<rparr>
     (Inr (RequestValue \<lparr>body_text = JSString (js ''hello''),
        body_sourceLanguage = JSString (js ''en''),
        body_targetLanguage = JSString (js ''ja'')\<rparr>)) =
     (error_response AUTH_ERROR ''Translation service configuration error.'' 500, []) \<and>
   length (snd (POST \<lparr>GOOGLE_TRANSLATE_API_KEY = Some (js ''secret''),
         google_fetch = (\<lambda>r. Inl (Exn OtherError []))\<rparr>
     (Inr (RequestValue \<lparr>body_text = JSString (js ''hello''),
        body_sourceLanguage = JSString (js ''en''),
        body_targetLanguage = JSString (js ''ja'')\<rparr>)))) = 1"
proof -
  let ?f = "\<lambda>r::google_request. (Inl (Exn OtherError []) :: js_exn + GoogleTranslateResponse Response)"
  let ?env = "\<lparr>GOOGLE_TRANSLATE_API_KEY = None, google_fetch = ?f\<rparr>"
  let ?envk = "\<lparr>GOOGLE_TRANSLATE_API_KEY = Some (js ''secret''), google_fetch = ?f\<rparr>"
  let ?b = "\<lambda>t l. \<lparr>body_text = t, body_sourceLanguage = JSString (js l),
        body_targetLanguage = JSString (js ''ja'')\<rparr>"
  have fr: "JSString (js ''fr'') \<notin> {JSString (js ''en''), JSString (js ''ja'')}"
      "JSString (js ''en'') \<in> {JSString (js ''en''), JSString (js ''ja'')}"
      "JSString (js ''ja'') \<in> {JSString (js ''en''), JSString (js ''ja'')}"
    by (simp_all add: js_def)
  have h1: "\<forall>s. body_text (?b JSUndefined ''en'') = JSString s \<longrightarrow> s = []"
    by simp
  have h2: "body_text (?b (JSString [0x3000, 0x20]) ''en'') = JSString [0x3000, 0x20] \<and>
      [0x3000, 0x20 :: 16 word] \<noteq> [] \<and> trim [0x3000, 0x20] = []"
    by (simp add: trim_def isWhiteSpace_def)
  have h3: "body_text (?b (JSString (replicate 5001 0x61)) ''en'') = JSString (replicate 5001 0x61) \<and>
      trim (replicate 5001 (0x61 :: 16 word)) \<noteq> [] \<and>
      5000 < length (replicate 5001 (0x61 :: 16 word))"
    by (simp add: trim_Nil_iff isWhiteSpace_def)
  have h4: "body_text (?b (JSString (js ''hello'')) ''fr'') = JSString (js ''hello'') \<and>
      trim (js ''hello'') \<noteq> [] \<and> length (js ''hello'') \<le> 5000 \<and>
      (body_sourceLanguage (?b (JSString (js ''hello'')) ''fr'') \<notin>
         {JSString (js ''en''), JSString (js ''ja'')} \<or>
       body_targetLanguage (?b (JSString (js ''hello'')) ''fr'') \<notin>
         {JSString (js ''en''), JSString (js ''ja'')})"
    using fr(1) by (simp add: hello_valid)
  have h5: "body_text (?b (JSString (js ''hello'')) ''en'') = JSString (js ''hello'') \<and>
      trim (js ''hello'') \<noteq> [] \<and> length (js ''hello'') \<le> 5000 \<and>
      body_sourceLanguage (?b (JSString (js ''hello'')) ''en'') \<in>
         {JSString (js ''en''), JSString (js ''ja'')} \<and>
      body_targetLanguage (?b (JSString (js ''hello'')) ''en'') \<in>
         {JSString (js ''en''), JSString (js ''ja'')} \<and>
      (GOOGLE_TRANSLATE_API_KEY ?env = None \<or> GOOGLE_TRANSLATE_API_KEY ?env = Some [])"
    using fr(2,3) by (simp add: hello_valid)
  have h6: "body_text (?b (JSString (js ''hello'')) ''en'') = JSString (js ''hello'') \<and>
      trim (js ''hello'') \<noteq> [] \<and> length (js ''hello'') \<le> 5000 \<and>
      body_sourceLanguage (?b (JSString (js ''hello'')) ''en'') \<in>
         {JSString (js ''en''), JSString (js ''ja'')} \<and>
      body_targetLanguage (?b (JSString (js ''hello'')) ''en'') \<in>
         {JSString (js ''en''), JSString (js ''ja'')} \<and>
      GOOGLE_TRANSLATE_API_KEY ?envk = Some (js ''secret'') \<and> js ''secret'' \<noteq> []"
    using fr(2,3) by (simp add: hello_valid)
  note t1 = POST_validation_order [of "?b JSUndefined ''en''" ?env, THEN conjunct1, THEN mp, OF h1]
  note t2 = POST_validation_order [of "?b (JSString [0x3000, 0x20]) ''en''" ?env,
      THEN conjunct2, THEN conjunct1, THEN spec, THEN mp, OF h2]
  note t3 = POST_validation_order [of "?b (JSString (replicate 5001 0x61)) ''en''" ?env,
      THEN conjunct2, THEN conjunct2, THEN conjunct1, THEN spec, THEN mp, OF h3]
  note t4 = POST_validation_order [of "?b (JSString (js ''hello'')) ''fr''" ?env,
      THEN conjunct2, THEN conjunct2, THEN conjunct2, THEN conjunct1, THEN spec, THEN mp, OF h4]
  note t5 = POST_validation_order [of "?b (JSString (js ''hello'')) ''en''" ?env,
      THEN conjunct2, THEN conjunct2, THEN conjunct2, THEN conjunct2, THEN conjunct1,
      THEN spec, THEN mp, OF h5]
  note t6 = POST_validation_order [of "?b (JSString (js ''hello'')) ''en''" ?envk,
      THEN conjunct2, THEN conjunct2, THEN conjunct2, THEN conjunct2, THEN conjunct2,
      THEN spec, THEN spec, THEN mp, OF h6]
  have l6: "length (snd (POST ?envk (Inr (RequestValue (?b (JSString (js ''hello'')) ''en''))))) = 1"
    by (simp add: t6)
  show ?thesis
    by (rule conjI t1 t2 t3 t4 t5 l6)+
qed

lemma includes_fetch_failed: "includes_str (js ''fetch failed'') (js ''fetch'')"
  by (simp add: js_def)

lemma POST_catch_cases:
  "POST_catch e =
     error_response NETWORK_ERROR
       ''Unable to connect. Please check your internet connection.'' 503 \<or>
   POST_catch e =
     error_response API_ERROR ''Translation service is temporarily unavailable.'' 500"
  by (simp add: POST_catch_def)

lemma POST_exception_mapping:
  assumes "fst (POST_try env request) = Inl e"
  shows "fst (POST env request) =
    (if exn_class e = TypeError \<and> includes_str (exn_message e) (js ''fetch'')
     then error_response NETWORK_ERROR
            ''Unable to connect. Please check your internet connection.'' 503
     else error_response API_ERROR ''Translation service is temporarily unavailable.'' 500)"
  using POST_Inl [OF assms] by (simp add: POST_catch_def)

lemma POST_provider_call_throws:
  assumes "body_text body = JSString s" and "trim s \<noteq> []" and "length s \<le> 5000"
    and "body_sourceLanguage body \<in> set validLanguages"
    and "body_targetLanguage body \<in> set validLanguages"
    and "GOOGLE_TRANSLATE_API_KEY env = Some k" and "k \<noteq> []"
  shows "google_fetch env (provider_request env body) = Inl e \<Longrightarrow>
      fst (POST_try env (Inr (RequestValue body))) = Inl e"
    and "google_fetch env (provider_request env body) = Inr g \<Longrightarrow> ok g \<Longrightarrow>
      json_of g = Inl e \<Longrightarrow> fst (POST_try env (Inr (RequestValue body))) = Inl e"
proof -
  show "google_fetch env (provider_request env body) = Inl e \<Longrightarrow>
      fst (POST_try env (Inr (RequestValue body))) = Inl e"
    by (simp add: POST_try_valid [OF assms])
  show "google_fetch env (provider_request env body) = Inr g \<Longrightarrow> ok g \<Longrightarrow>
      json_of g = Inl e \<Longrightarrow> fst (POST_try env (Inr (RequestValue body))) = Inl e"
    by (auto simp: POST_try_valid [OF assms] map_google_response_def first_translation_def
        ok_def)
qed

text \<open>
  A failure to connect to the provider: \<open>fetch\<close> rejects with the runtime's TypeError
  "fetch failed", which the \<open>catch\<close> block answers with NETWORK_ERROR and status 503.
\<close>

lemma POST_fetch_failed:
  assumes "body_text body = JSString s" and "trim s \<noteq> []" and "length s \<le> 5000"
    and "body_sourceLanguage body \<in> set validLanguages"
    and "body_targetLanguage body \<in> set validLanguages"
    and "GOOGLE_TRANSLATE_API_KEY env = Some k" and "k \<noteq> []"
    and "google_fetch env (provider_request env body) = Inl (Exn TypeError (js ''fetch failed''))"
  shows "fst (POST env (Inr (RequestValue body))) =
    error_response NETWORK_ERROR
      ''Unable to connect. Please check your internet connection.'' 503"
  using POST_exception_mapping [OF POST_provider_call_throws(1) [OF assms]]
  by (simp add: includes_fetch_failed)

text \<open>
  Claim C4. Every exception raised in the \<open>try\<close> block should be answered with
  NETWORK_ERROR and status 503 when it is a transport-level failure and with API_ERROR
  and status 500 otherwise. The handler takes an exception for a network error when it
  is a TypeError whose message contains "fetch". That holds for a failure to connect
  (lemma \<open>POST_fetch_failed\<close>). When the provider has answered with status 200 and the
  connection breaks while \<open>await googleResponse.json()\<close> reads the body, the read
  rejects with the TypeError "terminated"; the exception is raised inside the same
  \<open>try\<close> block, and the handler answers API_ERROR with status 500, not NETWORK_ERROR
  with status 503.
\<close>

theorem POST_body_read_terminated:
  "POST \<lparr>GOOGLE_TRANSLATE_API_KEY = Some (js ''secret''),
         google_fetch = (\<lambda>r. Inr (Response 200 (Inl (Exn TypeError (js ''terminated'')))))\<rparr>
     (Inr (RequestValue \<lparr>body_text = JSString (js ''hello''),
        body_sourceLanguage = JSString (js ''en''),
        body_targetLanguage = JSString (js ''ja'')\<rparr>)) =
     (error_response API_ERROR ''Translation service is temporarily unavailable.'' 500,
      [provider_request
         \<lparr>GOOGLE_TRANSLATE_API_KEY = Some (js ''secret''),
          google_fetch = (\<lambda>r. Inr (Response 200 (Inl (Exn TypeError (js ''terminated'')))))\<rparr>
         \<lparr>body_text = JSString (js ''hello''),
          body_sourceLanguage = JSString (js ''en''),
          body_targetLanguage = JSString (js ''ja'')\<rparr>]) \<and>
   error_response API_ERROR ''Translation service is temporarily unavailable.'' 500 \<noteq>
     error_response NETWORK_ERROR
       ''Unable to connect. Please check your internet connection.'' 503"
proof -
  let ?body = "\<lparr>body_text = JSString (js ''hello''),
           body_sourceLanguage = JSString (js ''en''),
           body_targetLanguage = JSString (js ''ja'')\<rparr>"
  let ?e = "Exn TypeError (js ''terminated'')"
  let ?g = "Response 200 (Inl ?e) :: GoogleTranslateResponse Response"
  let ?env = "\<lparr>GOOGLE_TRANSLATE_API_KEY = Some (js ''secret''),
      google_fetch = (\<lambda>r::google_request. (Inr ?g :: js_exn + GoogleTranslateResponse Response))\<rparr>"
  have v: "body_text ?body = JSString (js ''hello'')"
      "body_sourceLanguage ?body \<in> set validLanguages"
      "body_targetLanguage ?body \<in> set validLanguages"
      "GOOGLE_TRANSLATE_API_KEY ?env = Some (js ''secret'')"
    by (simp_all add: hello_valid)
  note valid = v(1) hello_valid(1,2) v(2,3,4) hello_valid(5)
  have f: "google_fetch ?env (provider_request ?env ?body) = Inr ?g" by simp
  have okg: "ok ?g" "json_of ?g = Inl ?e" by (simp_all add: ok_def)
  have tr: "fst (POST_try ?env (Inr (RequestValue ?body))) = Inl ?e"
    by (rule POST_provider_call_throws(2) [OF valid f okg])
  have calls: "snd (POST ?env (Inr (RequestValue ?body))) = [provider_request ?env ?body]"
    by (simp add: POST_calls POST_try_valid [OF valid])
  have nofetch: "\<not> includes_str (js ''terminated'') (js ''fetch'')"
    by (simp add: js_def)
  have r: "fst (POST ?env (Inr (RequestValue ?body))) =
      error_response API_ERROR ''Translation service is temporarily unavailable.'' 500"
    using POST_exception_mapping [OF tr] nofetch by simp
  have ne: "error_response API_ERROR ''Translation service is temporarily unavailable.'' 500 \<noteq>
     error_response NETWORK_ERROR
       ''Unable to connect. Please check your internet connection.'' 503"
    by (simp add: error_response_def)
  have "POST ?env (Inr (RequestValue ?body)) =
      (error_response API_ERROR ''Translation service is temporarily unavailable.'' 500,
       [provider_request ?env ?body])"
    using r calls by (simp add: prod_eq_iff)
  then show ?thesis using ne by simp
qed

text \<open>
  Claim C10. The handler answers every request: its response is one of the two responses
  of the \<open>catch\<close> block or the response the \<open>try\<close> block returned, so no exception
  leaves it. A request body that is not valid JSON (\<open>request.json()\<close> rejects with a
  SyntaxError) and a provider success response whose \<open>translations\<close> array is empty are
  both answered with API_ERROR and status 500.
\<close>

theorem POST_total:
  "(fst (POST env request) =
      error_response NETWORK_ERROR
        ''Unable to connect. Please check your internet connection.'' 503 \<or>
    fst (POST env request) =
      error_response API_ERROR ''Translation service is temporarily unavailable.'' 500 \<or>
    fst (POST_try env request) = Inr (fst (POST env request))) \<and>
   POST env (Inl (Exn SyntaxError m)) =
     (error_response API_ERROR ''Translation service is temporarily unavailable.'' 500, []) \<and>
   (\<forall>s k g. body_text body = JSString s \<and> trim s \<noteq> [] \<and> length s \<le> 5000 \<and>
      body_sourceLanguage body \<in> set validLanguages \<and>
      body_targetLanguage body \<in> set validLanguages \<and>
      GOOGLE_TRANSLATE_API_KEY env = Some k \<and> k \<noteq> [] \<and>
      google_fetch env (provider_request env body) = Inr g \<and>
      ok g \<and> json_of g = Inr (GoogleTranslations []) \<longrightarrow>
      fst (POST env (Inr (RequestValue body))) =
        error_response API_ERROR ''Translation service is temporarily unavailable.'' 500)"
proof -
  have a: "fst (POST env request) =
      error_response NETWORK_ERROR
        ''Unable to connect. Please check your internet connection.'' 503 \<or>
    fst (POST env request) =
      error_response API_ERROR ''Translation service is temporarily unavailable.'' 500 \<or>
    fst (POST_try env request) = Inr (fst (POST env request))"
  proof (cases "fst (POST_try env request)")
    case (Inl e)
    then show ?thesis using POST_Inl [OF Inl] POST_catch_cases [of e] by auto
  next
    case (Inr r)
    then show ?thesis using POST_Inr [OF Inr] by simp
  qed
  have b: "POST env (Inl (Exn SyntaxError m)) =
     (error_response API_ERROR ''Translation service is temporarily unavailable.'' 500, [])"
    by (simp add: POST_def POST_try_def POST_catch_def)
  have nofetch: "\<not> includes_str
      (js ''Cannot read properties of undefined (reading 'translatedText')'') (js ''fetch'')"
    by (simp add: js_def)
  have c: "fst (POST env (Inr (RequestValue body))) =
        error_response API_ERROR ''Translation service is temporarily unavailable.'' 500"
    if h: "body_text body = JSString s \<and> trim s \<noteq> [] \<and> length s \<le> 5000 \<and>
      body_sourceLanguage body \<in> set validLanguages \<and>
      body_targetLanguage body \<in> set validLanguages \<and>
      GOOGLE_TRANSLATE_API_KEY env = Some k \<and> k \<noteq> [] \<and>
      google_fetch env (provider_request env body) = Inr g \<and>
      ok g \<and> json_of g = Inr (GoogleTranslations [])" for s k g
  proof -
    have m: "map_google_response g =
        Inl (Exn TypeError
          (js ''Cannot read properties of undefined (reading 'translatedText')''))"
      using h by (auto simp: map_google_response_def first_translation_def ok_def)
    have "fst (POST_try env (Inr (RequestValue body))) =
        Inl (Exn TypeError
          (js ''Cannot read properties of undefined (reading 'translatedText')''))"
      using h m POST_try_valid [of body s env k] by simp
    from POST_Inl [OF this] show ?thesis
      using nofetch by (simp add: POST_catch_def)
  qed
  show ?thesis
    using a b c by blast
qed


theorem POST_total_witness:
  "POST \<lparr>GOOGLE_TRANSLATE_API_KEY = Some (js ''secret''),
         google_fetch = (\<lambda>r. Inr (Response 200 (Inr (GoogleTranslations []))))\<rparr>
     (Inl (Exn SyntaxError (js ''Unexpected end of JSON input''))) =
     (error_response API_ERROR ''Translation service is temporarily unavailable.'' 500, []) \<and>
   fst (POST \<lparr>GOOGLE_TRANSLATE_API_KEY = Some (js ''secret''),
         google_fetch = (\<lambda>r. Inr (Response 200 (Inr (GoogleTranslations []))))\<rparr>
     (Inr (RequestValue \<lparr>body_text = JSString (js ''hello''),
           body_sourceLanguage = JSString (js ''en''),
           body_targetLanguage = JSString (js ''ja'')\<rparr>))) =
     error_response API_ERROR ''Translation service is temporarily unavailable.'' 500"
proof -
  let ?body = "\<lparr>body_text = JSString (js ''hello''),
           body_sourceLanguage = JSString (js ''en''),
           body_targetLanguage = JSString (js ''ja'')\<rparr>"
  let ?g = "Response 200 (Inr (GoogleTranslations [])) :: GoogleTranslateResponse Response"
  let ?env = "\<lparr>GOOGLE_TRANSLATE_API_KEY = Some (js ''secret''),
      google_fetch = (\<lambda>r::google_request. (Inr ?g :: js_exn + GoogleTranslateResponse Response))\<rparr>"
  note th = POST_total [of ?env "Inr (RequestValue ?body)" "js ''Unexpected end of JSON input''" ?body]
  have h: "body_text ?body = JSString (js ''hello'') \<and> trim (js ''hello'') \<noteq> [] \<and>
      length (js ''hello'') \<le> 5000 \<and>
      body_sourceLanguage ?body \<in> set validLanguages \<and>
      body_targetLanguage ?body \<in> set validLanguages \<and>
      GOOGLE_TRANSLATE_API_KEY ?env = Some (js ''secret'') \<and> js ''secret'' \<noteq> [] \<and>
      google_fetch ?env (provider_request ?env ?body) = Inr ?g \<and>
      ok ?g \<and> json_of ?g = Inr (GoogleTranslations [])"
    by (simp add: hello_valid ok_def)
  note b = th [THEN conjunct2, THEN conjunct1]
  note c = th [THEN conjunct2, THEN conjunct2, THEN spec, THEN spec, THEN spec, THEN mp, OF h]
  show ?thesis
    by (rule conjI b c)+
qed

lemma error_response_eq_sym:
  "NextResponse_json (ErrorBody c' m' st) hs = error_response c m s \<longleftrightarrow>
     c' = c \<and> m' = js m \<and> st = s \<and> hs = s"
  by (auto simp: error_response_def)

lemma map_google_response_error:
  assumes "map_google_response g = Inr (NextResponse_json (ErrorBody c m st) hs)"
  shows "c \<in> set ERROR_CODES \<and> m \<noteq> [] \<and> st = hs \<and> hs = status_of g"
proof -
  have ft: "first_translation p \<noteq> Inr (NextResponse_json (ErrorBody c m st) hs)" for p
    by (simp add: first_translation_def NextResponse_json_init_200
        split: sum.split GoogleTranslateResponse.split list.split)
  show ?thesis
    using assms ft [of "json_of g"]
    by (auto simp: map_google_response_def error_response_eq error_response_eq_sym
        codes_in_taxonomy js_def dest!: json_error_Inr split: if_splits)
qed

lemma POST_try_response:
  assumes "fst (POST_try env request) = Inr r"
  shows "r = error_response INVALID_INPUT ''Please enter valid text to translate.'' 400 \<or>
    r = error_response INVALID_INPUT ''Please enter text to translate.'' 400 \<or>
    r = error_response INVALID_INPUT ''Text exceeds maximum length of 5000 characters.'' 400 \<or>
    r = error_response INVALID_INPUT ''Invalid language selection.'' 400 \<or>
    r = error_response AUTH_ERROR ''Translation service configuration error.'' 500 \<or>
    (\<exists>rq g. google_fetch env rq = Inr g \<and> map_google_response g = Inr r)"
proof (cases request)
  case (Inl e)
  then show ?thesis using assms by (simp add: POST_try_def)
next
  case (Inr j)
  show ?thesis
  proof (cases j)
    case RequestNull
    then show ?thesis using assms Inr by (simp add: POST_try_def)
  next
    case (RequestValue body)
    show ?thesis
    proof (cases "google_fetch env (provider_request env body)")
      case (Inl e)
      then show ?thesis
        using assms Inr RequestValue
        by (auto simp: POST_try_def json_error_literal split: if_splits)
    next
      case f: (Inr g)
      then show ?thesis
        using assms Inr RequestValue
        by (simp add: POST_try_def json_error_literal split: if_splits) blast
    qed
  qed
qed

text \<open>
  Claim C9. Every error response of the handler has a code of the taxonomy, a non-empty
  message and a \<open>status\<close> property equal to the HTTP status of the response, and that
  status is 400, 401, 403, 429, 500 or 503 or the status of the provider's response.
\<close>

theorem POST_error_response_shape:
  assumes "fst (POST env request) = NextResponse_json (ErrorBody c m st) hs"
  shows "c \<in> set ERROR_CODES \<and> m \<noteq> [] \<and> st = hs \<and>
    (hs \<in> {400, 401, 403, 429, 500, 503} \<or>
     (\<exists>rq g. google_fetch env rq = Inr g \<and> status_of g = hs))"
proof (cases "fst (POST_try env request)")
  case (Inl e)
  from POST_Inl [OF Inl] POST_catch_cases [of e] assms
  show ?thesis
    by (auto simp: error_response_eq_sym codes_in_taxonomy js_def)
next
  case (Inr r)
  from POST_Inr [OF Inr] assms have r: "r = NextResponse_json (ErrorBody c m st) hs"
    by simp
  from POST_try_response [OF Inr] show ?thesis
  proof (elim disjE exE conjE)
    fix rq g
    assume "google_fetch env rq = Inr g" and "map_google_response g = Inr r"
    then show ?thesis
      using map_google_response_error [of g c m st hs] r by blast
  qed (use r in \<open>auto simp: error_response_eq error_response_eq_sym codes_in_taxonomy js_def\<close>)
qed

theorem POST_error_response_shape_witness:
  "AUTH_ERROR \<in> set ERROR_CODES \<and> js ''Translation service configuration error.'' \<noteq> [] \<and>
   fst (POST \<lparr>GOOGLE_TRANSLATE_API_KEY = Some (js ''secret''),
              google_fetch = (\<lambda>r. Inr (Response 403 (Inr GoogleNull)))\<rparr>
        (Inr (RequestValue \<lparr>body_text = JSString (js ''hello''),
           body_sourceLanguage = JSString (js ''en''),
           body_targetLanguage = JSString (js ''ja'')\<rparr>))) =
     NextResponse_json
       (ErrorBody AUTH_ERROR (js ''Translation service configuration error.'') 403) 403"
proof -
  let ?body = "\<lparr>body_text = JSString (js ''hello''),
           body_sourceLanguage = JSString (js ''en''),
           body_targetLanguage = JSString (js ''ja'')\<rparr>"
  let ?g = "Response 403 (Inr GoogleNull) :: GoogleTranslateResponse Response"
  let ?env = "\<lparr>GOOGLE_TRANSLATE_API_KEY = Some (js ''secret''),
      google_fetch = (\<lambda>r::google_request. (Inr ?g :: js_exn + GoogleTranslateResponse Response))\<rparr>"
  have v: "body_text ?body = JSString (js ''hello'')"
      "body_sourceLanguage ?body \<in> set validLanguages"
      "body_targetLanguage ?body \<in> set validLanguages"
      "GOOGLE_TRANSLATE_API_KEY ?env = Some (js ''secret'')"
    by (simp_all add: hello_valid)
  have "fst (POST_try ?env (Inr (RequestValue ?body))) = map_google_response ?g"
    by (simp add: POST_try_valid [OF v(1) hello_valid(1,2) v(2,3,4) hello_valid(5)])
  also have "\<dots> = Inr (NextResponse_json
       (ErrorBody AUTH_ERROR (js ''Translation service configuration error.'') 403) 403)"
    by (simp add: map_google_response_def json_error_literal error_response_def)
  finally have p: "fst (POST ?env (Inr (RequestValue ?body))) = NextResponse_json
       (ErrorBody AUTH_ERROR (js ''Translation service configuration error.'') 403) 403"
    by (rule POST_Inr)
  from POST_error_response_shape [OF p] p show ?thesis
    by simp
qed

end
